theory Spec2Isabelle
  imports Complex_Main
begin

section \<open>Data model\<close>

text \<open>
  The scripts work on numpy arrays. An array is modelled by its shape together with an
  index function; entries outside the shape are never read. Floating-point numbers are
  idealised as the reals (\<^typ>\<open>real\<close>, \<^typ>\<open>complex\<close>), so that every statement
  below is about the exact arithmetic the code approximates.

  Exceptions are values: every function that can raise returns \<open>error + result\<close>.
\<close>

datatype error = ValueError | RuntimeError | IndexError | LinAlgError

record 'a nd2 =
  rows :: nat
  cols :: nat
  at2 :: "nat \<Rightarrow> nat \<Rightarrow> 'a"

record 'a nd3 =
  dim0 :: nat
  dim1 :: nat
  dim2 :: nat
  at3 :: "nat \<Rightarrow> nat \<Rightarrow> nat \<Rightarrow> 'a"

text \<open>\<open>np.argmax\<close> of a one-dimensional sequence: the first index of the maximum;
  an empty sequence raises \<open>ValueError\<close>.\<close>

fun argmax_from :: "real list \<Rightarrow> nat \<Rightarrow> nat \<Rightarrow> real \<Rightarrow> nat" where
  "argmax_from [] i b v = b"
| "argmax_from (x # xs) i b v =
     (if v < x then argmax_from xs (Suc i) i x else argmax_from xs (Suc i) b v)"

definition argmax_first :: "real list \<Rightarrow> nat" where
  "argmax_first xs = (case xs of [] \<Rightarrow> 0 | x # rest \<Rightarrow> argmax_from rest 1 0 x)"

definition np_argmax :: "real list \<Rightarrow> error + nat" where
  "np_argmax xs = (if xs = [] then Inl ValueError else Inr (argmax_first xs))"

section \<open>Oracle masks: \<open>oracle_separate.py\<close>\<close>

text \<open>
  \<open>np.stack\<close> of a list of two-dimensional arrays along a new first axis. It raises
  \<open>ValueError\<close> on an empty list and when the shapes differ.
\<close>

definition np_stack :: "'a nd2 list \<Rightarrow> error + 'a nd3" where
  "np_stack ms =
     (if ms = [] then Inl ValueError
      else if \<not> list_all (\<lambda>m. rows m = rows (hd ms) \<and> cols m = cols (hd ms)) ms
        then Inl ValueError
      else Inr \<lparr>dim0 = length ms, dim1 = rows (hd ms), dim2 = cols (hd ms),
                at3 = (\<lambda>s t f. at2 (ms ! s) t f)\<rparr>)"

text \<open>
  \<open>cmat_abs\<close> lives in \<open>libs/utils.py\<close>, which is not part of the sources at hand. It is
  applied entrywise to a complex matrix; the entrywise magnitude is the parameter \<open>mag\<close>.
\<close>

definition cmat_abs :: "(complex \<Rightarrow> real) \<Rightarrow> complex nd2 \<Rightarrow> real nd2" where
  "cmat_abs mag m = \<lparr>rows = rows m, cols = cols m, at2 = (\<lambda>t f. mag (at2 m t f))\<rparr>"

text \<open>\<open>np.argmax(..., 0)\<close> of a stack of shape S x T x F: per cell, the first layer that
  holds the maximum. The stack has at least one layer, so no cell is empty.\<close>

definition argmax_axis0 :: "real nd3 \<Rightarrow> nat nd2" where
  "argmax_axis0 a =
     \<lparr>rows = dim1 a, cols = dim2 a,
      at2 = (\<lambda>t f. argmax_first (map (\<lambda>s. at3 a s t f) [0..<dim0 a]))\<rparr>"

text \<open>
  The branch \<open>mask_type == "ibm"\<close> of \<open>compute_mask\<close> (the other mask types are ratio
  masks and are not needed below). The mixture is an argument but is not read.
\<close>

definition compute_mask_ibm ::
  "(complex \<Rightarrow> real) \<Rightarrow> complex nd2 \<Rightarrow> complex nd2 list \<Rightarrow> error + bool nd2 list" where
  "compute_mask_ibm mag mixture targets_list =
     (case np_stack (map (cmat_abs mag) targets_list) of
        Inl e \<Rightarrow> Inl e
      | Inr stacked \<Rightarrow>
          (let max_index = argmax_axis0 stacked
           in Inr (map (\<lambda>s. \<lparr>rows = rows max_index, cols = cols max_index,
                               at2 = (\<lambda>t f. at2 max_index t f = s)\<rparr>)
                       [0..<length targets_list])))"

section \<open>Loops and linear algebra\<close>

text \<open>A \<open>for\<close> loop over a list of indices whose body may raise: the first exception
  ends the loop and is the result.\<close>

fun for_loop :: "nat list \<Rightarrow> (nat \<Rightarrow> 's \<Rightarrow> error + 's) \<Rightarrow> 's \<Rightarrow> error + 's" where
  "for_loop [] body s = Inr s"
| "for_loop (i # is) body s =
     (case body i s of Inl e \<Rightarrow> Inl e | Inr s' \<Rightarrow> for_loop is body s')"

type_synonym cmatrix = "nat \<Rightarrow> nat \<Rightarrow> complex"
type_synonym cvector = "nat \<Rightarrow> complex"

text \<open>
  \<open>np.linalg.solve(A, b)\<close> for an N x N matrix. numpy hands the system to LAPACK, which
  factorises with row pivoting and raises \<open>LinAlgError\<close> when it meets a column without a
  pivot. In exact arithmetic the answer does not depend on which non-zero pivot is taken;
  the model eliminates column by column with the first non-zero entry at or below the
  diagonal as pivot (Gauss-Jordan), on the matrix and the right-hand side together.
\<close>

definition swap_rows :: "nat \<Rightarrow> nat \<Rightarrow> (nat \<Rightarrow> 'a) \<Rightarrow> (nat \<Rightarrow> 'a)" where
  "swap_rows p k r = (\<lambda>i. if i = k then r p else if i = p then r k else r i)"

definition pivot_step :: "nat \<Rightarrow> nat \<Rightarrow> cmatrix \<times> cvector \<Rightarrow> cmatrix \<times> cvector" where
  "pivot_step p k Ab =
     (let A1 = swap_rows p k (fst Ab);
          b1 = swap_rows p k (snd Ab);
          c = A1 k k
      in (\<lambda>i j. if i = k then A1 k j / c else A1 i j - A1 i k * (A1 k j / c),
          \<lambda>i. if i = k then b1 k / c else b1 i - A1 i k * (b1 k / c)))"

fun eliminate :: "nat \<Rightarrow> nat list \<Rightarrow> cmatrix \<times> cvector \<Rightarrow> (cmatrix \<times> cvector) option" where
  "eliminate N [] Ab = Some Ab"
| "eliminate N (k # ks) Ab =
     (case find (\<lambda>i. fst Ab i k \<noteq> 0) [k..<N] of
        None \<Rightarrow> None
      | Some p \<Rightarrow> eliminate N ks (pivot_step p k Ab))"

definition linalg_solve :: "nat \<Rightarrow> cmatrix \<Rightarrow> cvector \<Rightarrow> error + cvector" where
  "linalg_solve N A b =
     (case eliminate N [0..<N] (A, b) of None \<Rightarrow> Inl LinAlgError | Some Ab \<Rightarrow> Inr (snd Ab))"

text \<open>The product of an N x N matrix with a vector, a solution of a linear system, and
  singularity: some vector that is not zero is mapped to zero.\<close>

definition mat_vec :: "nat \<Rightarrow> cmatrix \<Rightarrow> cvector \<Rightarrow> cvector" where
  "mat_vec N A x = (\<lambda>i. \<Sum>j<N. A i j * x j)"

definition solves :: "nat \<Rightarrow> cmatrix \<Rightarrow> cvector \<Rightarrow> cvector \<Rightarrow> bool" where
  "solves N A b x \<longleftrightarrow> (\<forall>i<N. mat_vec N A x i = b i)"

definition singular :: "nat \<Rightarrow> cmatrix \<Rightarrow> bool" where
  "singular N A \<longleftrightarrow> (\<exists>v. (\<exists>i<N. v i \<noteq> 0) \<and> (\<forall>i<N. mat_vec N A v i = 0))"

text \<open>The invariant of the elimination: the columns before \<open>k\<close> are unit columns.\<close>

definition unit_below :: "nat \<Rightarrow> nat \<Rightarrow> cmatrix \<Rightarrow> bool" where
  "unit_below N k A \<longleftrightarrow> (\<forall>j<k. \<forall>i<N. A i j = (if i = j then 1 else 0))"

section \<open>AuxIVA: \<open>apply_auxiva.py\<close>\<close>

text \<open>
  \<open>np.einsum("...tn,...nx->...tx", X, np.conj(W))\<close> for \<open>X\<close> of shape F x T x N and \<open>W\<close>
  of shape F x N x N.
\<close>

definition demix :: "nat \<Rightarrow> (nat \<Rightarrow> nat \<Rightarrow> nat \<Rightarrow> complex) \<Rightarrow> (nat \<Rightarrow> cmatrix)
                      \<Rightarrow> (nat \<Rightarrow> nat \<Rightarrow> nat \<Rightarrow> complex)" where
  "demix N X W = (\<lambda>f t x. \<Sum>n<N. X f t n * cnj (W f n x))"

text \<open>
  \<open>V = np.dot(np.expand_dims(Gr[n], 0) * X[f].T, np.conj(X[f])) / T\<close>, with \<open>X[f]\<close> of shape
  T x N and \<open>Gr[n]\<close> of length T. For \<open>T = 0\<close> numpy divides zero by zero and fills \<open>V\<close>
  with NaN, which the reals do not have: statements about the update are for \<open>T > 0\<close>.
\<close>

definition weighted_cov :: "nat \<Rightarrow> (nat \<Rightarrow> real) \<Rightarrow> (nat \<Rightarrow> nat \<Rightarrow> complex) \<Rightarrow> cmatrix" where
  "weighted_cov T Grn Xf = (\<lambda>i j. (\<Sum>t<T. of_real (Grn t) * Xf t i * cnj (Xf t j)) / of_nat T)"

text \<open>\<open>np.conj(W[f].T) @ V\<close>, the matrix handed to the solver.\<close>

definition solve_matrix :: "nat \<Rightarrow> cmatrix \<Rightarrow> cmatrix \<Rightarrow> cmatrix" where
  "solve_matrix N Wf V = (\<lambda>i j. \<Sum>k<N. cnj (Wf k i) * V k j)"

text \<open>\<open>np.inner(np.conj(w), V @ w)\<close>: the inner product of numpy does not conjugate.\<close>

definition quad_form :: "nat \<Rightarrow> cmatrix \<Rightarrow> cvector \<Rightarrow> complex" where
  "quad_form N V w = (\<Sum>i<N. cnj (w i) * mat_vec N V w i)"

text \<open>
  The body of the two inner loops (lines 47 to 52): the update of column \<open>n\<close> of \<open>W[f]\<close>.
  \<open>I[n]\<close> is row \<open>n\<close> of the identity matrix.
\<close>

definition update_column ::
  "nat \<Rightarrow> nat \<Rightarrow> (nat \<Rightarrow> real) \<Rightarrow> (nat \<Rightarrow> nat \<Rightarrow> complex) \<Rightarrow> cmatrix \<Rightarrow> nat \<Rightarrow> error + cmatrix" where
  "update_column N T Grn Xf Wf n =
     (let V = weighted_cov T Grn Xf
      in case linalg_solve N (solve_matrix N Wf V) (\<lambda>i. if i = n then 1 else 0) of
           Inl e \<Rightarrow> Inl e
         | Inr w \<Rightarrow> Inr (\<lambda>i j. if j = n then w i / quad_form N V w else Wf i j))"

text \<open>\<open>R = np.sqrt(np.sum(np.abs(Y) ** 2, axis=0))\<close> and \<open>Gr = 1 / (R.T + EPSILON)\<close>.
  \<open>EPSILON\<close> comes from \<open>libs/utils.py\<close>, which is not among the sources: it is a
  parameter.\<close>

definition aux_weight :: "real \<Rightarrow> nat \<Rightarrow> (nat \<Rightarrow> nat \<Rightarrow> nat \<Rightarrow> complex) \<Rightarrow> nat \<Rightarrow> nat \<Rightarrow> real" where
  "aux_weight EPSILON F Y = (\<lambda>n t. 1 / (sqrt (\<Sum>f<F. (cmod (Y f t n))\<^sup>2) + EPSILON))"

text \<open>The loop over the sources \<open>n\<close> of one bin, the loop over the bins \<open>f\<close>, and one
  pass of the outer loop, whose state is the pair of \<open>W\<close> and \<open>Y\<close>. Each loop takes its
  range as an argument (\<open>range(N)\<close>, \<open>range(F)\<close>, \<open>range(epochs)\<close> in the source).\<close>

definition cols_loop ::
  "nat \<Rightarrow> nat \<Rightarrow> (nat \<Rightarrow> nat \<Rightarrow> real) \<Rightarrow> (nat \<Rightarrow> nat \<Rightarrow> complex) \<Rightarrow> nat list \<Rightarrow> cmatrix
     \<Rightarrow> error + cmatrix" where
  "cols_loop N T Gr Xf ns Wf = for_loop ns (\<lambda>n Wf. update_column N T (Gr n) Xf Wf n) Wf"

definition bins_loop ::
  "nat \<Rightarrow> nat \<Rightarrow> (nat \<Rightarrow> nat \<Rightarrow> real) \<Rightarrow> (nat \<Rightarrow> nat \<Rightarrow> nat \<Rightarrow> complex) \<Rightarrow> nat list
     \<Rightarrow> (nat \<Rightarrow> cmatrix) \<Rightarrow> error + (nat \<Rightarrow> cmatrix)" where
  "bins_loop N T Gr X fs W =
     for_loop fs
       (\<lambda>f W. case cols_loop N T Gr (X f) [0..<N] (W f) of
                 Inl e \<Rightarrow> Inl e
               | Inr Wf \<Rightarrow> Inr (W(f := Wf))) W"

definition epoch ::
  "real \<Rightarrow> nat \<Rightarrow> nat \<Rightarrow> nat \<Rightarrow> (nat \<Rightarrow> nat \<Rightarrow> nat \<Rightarrow> complex)
     \<Rightarrow> (nat \<Rightarrow> cmatrix) \<times> (nat \<Rightarrow> nat \<Rightarrow> nat \<Rightarrow> complex)
     \<Rightarrow> error + (nat \<Rightarrow> cmatrix) \<times> (nat \<Rightarrow> nat \<Rightarrow> nat \<Rightarrow> complex)" where
  "epoch EPSILON N T F X WY =
     (case bins_loop N T (aux_weight EPSILON F (snd WY)) X [0..<F] (fst WY) of
        Inl e \<Rightarrow> Inl e
      | Inr W \<Rightarrow> Inr (W, demix N X W))"

definition epochs_loop ::
  "real \<Rightarrow> nat \<Rightarrow> nat \<Rightarrow> nat \<Rightarrow> (nat \<Rightarrow> nat \<Rightarrow> nat \<Rightarrow> complex) \<Rightarrow> nat list
     \<Rightarrow> (nat \<Rightarrow> cmatrix) \<times> (nat \<Rightarrow> nat \<Rightarrow> nat \<Rightarrow> complex)
     \<Rightarrow> error + (nat \<Rightarrow> cmatrix) \<times> (nat \<Rightarrow> nat \<Rightarrow> nat \<Rightarrow> complex)" where
  "epochs_loop EPSILON N T F X ks WY = for_loop ks (\<lambda>_. epoch EPSILON N T F X) WY"

text \<open>
  \<open>auxiva(X, epochs)\<close>. \<open>X\<close> has shape N x T x F and is transposed to F x T x N; \<open>W\<close> is
  built from a list of \<open>F\<close> identity matrices. With \<open>F = 0\<close> that list is empty, \<open>W\<close> is a
  one-dimensional empty array and the first \<open>einsum\<close> raises \<open>ValueError\<close>. \<open>range(epochs)\<close>
  is empty for \<open>epochs \<le> 0\<close>.
\<close>

definition transposed :: "complex nd3 \<Rightarrow> nat \<Rightarrow> nat \<Rightarrow> nat \<Rightarrow> complex" where
  "transposed X = (\<lambda>f t n. at3 X n t f)"

definition eye :: "nat \<Rightarrow> cmatrix" where
  "eye = (\<lambda>f i j. if i = j then 1 else 0)"

definition auxiva :: "real \<Rightarrow> complex nd3 \<Rightarrow> int \<Rightarrow> error + complex nd3" where
  "auxiva EPSILON X epochs =
     (let N = dim0 X; T = dim1 X; F = dim2 X
      in if F = 0 then Inl ValueError
         else case epochs_loop EPSILON N T F (transposed X) [0..<nat epochs]
                     (eye, demix N (transposed X) eye) of
                Inl e \<Rightarrow> Inl e
              | Inr WY \<Rightarrow> Inr \<lparr>dim0 = N, dim1 = T, dim2 = F, at3 = (\<lambda>n t f. snd WY f t n)\<rparr>)"

section \<open>Sound source localisation: \<open>libs/ssl.py\<close>\<close>

subsection \<open>Broadcasting and indexing\<close>

text \<open>
  numpy combines two axes of lengths \<open>a\<close> and \<open>b\<close> when they are equal or one of them
  is 1 (that axis is then repeated); otherwise the operation raises \<open>ValueError\<close>.
  \<open>np.einsum\<close> treats two axes with the same label in the same way. \<open>bix d i\<close> is the
  index read on an axis of length \<open>d\<close> for the position \<open>i\<close> of the combined axis.
\<close>

definition bdim :: "nat \<Rightarrow> nat \<Rightarrow> error + nat" where
  "bdim a b = (if a = b then Inr a else if a = 1 then Inr b else if b = 1 then Inr a
               else Inl ValueError)"

definition bix :: "nat \<Rightarrow> nat \<Rightarrow> nat" where
  "bix d i = (if d = 1 then 0 else i)"

text \<open>\<open>np.argmin\<close> of a one-dimensional sequence: the first index of the minimum.\<close>

fun argmin_from :: "real list \<Rightarrow> nat \<Rightarrow> nat \<Rightarrow> real \<Rightarrow> nat" where
  "argmin_from [] i b v = b"
| "argmin_from (x # xs) i b v =
     (if x < v then argmin_from xs (Suc i) i x else argmin_from xs (Suc i) b v)"

definition argmin_first :: "real list \<Rightarrow> nat" where
  "argmin_first xs = (case xs of [] \<Rightarrow> 0 | x # rest \<Rightarrow> argmin_from rest 1 0 x)"

definition np_argmin :: "real list \<Rightarrow> error + nat" where
  "np_argmin xs = (if xs = [] then Inl ValueError else Inr (argmin_first xs))"

text \<open>A time-frequency mask is real, of shape T x F or, with a source axis, N x T x F.
  With a source axis the maximum-likelihood estimator returns one index per source.\<close>

datatype tf_mask = Mask2 "real nd2" | Mask3 "real nd3"

datatype scores = Scores1 "real list" | Scores2 "real list list"

datatype doa = Doa nat | Doas "nat list"

definition ones :: "nat \<Rightarrow> nat \<Rightarrow> real nd2" where
  "ones T F = \<lparr>rows = T, cols = F, at2 = (\<lambda>t f. 1)\<rparr>"

subsection \<open>\<open>ml_ssl\<close>\<close>

text \<open>\<open>sv / np.linalg.norm(sv, axis=1, keepdims=True)\<close> for \<open>sv\<close> of shape A x M x F.\<close>

definition sv_norm :: "complex nd3 \<Rightarrow> nat \<Rightarrow> nat \<Rightarrow> real" where
  "sv_norm sv a f = sqrt (\<Sum>m<dim1 sv. (cmod (at3 sv a m f))\<^sup>2)"

definition sv_normalize :: "complex nd3 \<Rightarrow> complex nd3" where
  "sv_normalize sv = sv\<lparr>at3 := (\<lambda>a m f. at3 sv a m f / of_real (sv_norm sv a f))\<rparr>"

text \<open>\<open>stft / np.maximum(cmat_abs(stft), eps)\<close>; the entrywise magnitude of \<open>cmat_abs\<close> is
  the parameter \<open>mag\<close>, as above.\<close>

definition stft_normalize :: "(complex \<Rightarrow> real) \<Rightarrow> real \<Rightarrow> complex nd3 \<Rightarrow> complex nd3" where
  "stft_normalize mag eps stft =
     stft\<lparr>at3 := (\<lambda>m t f. at3 stft m t f / of_real (max (mag (at3 stft m t f)) eps))\<rparr>"

text \<open>\<open>np.abs(np.einsum("mtf,mtf->tf", stft, stft.conj()))\<close>.\<close>

definition ssh_cor :: "complex nd3 \<Rightarrow> real nd2" where
  "ssh_cor stft =
     \<lparr>rows = dim1 stft, cols = dim2 stft,
      at2 = (\<lambda>t f. cmod (\<Sum>m<dim0 stft. at3 stft m t f * cnj (at3 stft m t f)))\<rparr>"

text \<open>\<open>np.abs(np.einsum("amf,mtf->atf", sv, stft.conj())) ** 2\<close>.\<close>

definition ssv_cor :: "complex nd3 \<Rightarrow> complex nd3 \<Rightarrow> error + real nd3" where
  "ssv_cor sv stft =
     (case bdim (dim1 sv) (dim0 stft) of
        Inl e \<Rightarrow> Inl e
      | Inr M \<Rightarrow>
          (case bdim (dim2 sv) (dim2 stft) of
             Inl e \<Rightarrow> Inl e
           | Inr F \<Rightarrow>
               Inr \<lparr>dim0 = dim0 sv, dim1 = dim1 stft, dim2 = F,
                     at3 = (\<lambda>a t f. (cmod (\<Sum>m<M. at3 sv a (bix (dim1 sv) m) (bix (dim2 sv) f)
                                  * cnj (at3 stft (bix (dim0 stft) m) t (bix (dim2 stft) f))))\<^sup>2)\<rparr>))"

text \<open>\<open>delta = ssh_cor[None, ...] - ssv_cor / (1 + eps)\<close>: shapes 1 x T x F and A x T x F'.\<close>

definition ml_delta :: "real \<Rightarrow> real nd2 \<Rightarrow> real nd3 \<Rightarrow> error + real nd3" where
  "ml_delta eps ssh ssv =
     (case bdim (rows ssh) (dim1 ssv) of
        Inl e \<Rightarrow> Inl e
      | Inr T \<Rightarrow>
          (case bdim (cols ssh) (dim2 ssv) of
             Inl e \<Rightarrow> Inl e
           | Inr F \<Rightarrow>
               Inr \<lparr>dim0 = dim0 ssv, dim1 = T, dim2 = F,
                     at3 = (\<lambda>a t f. at2 ssh (bix (rows ssh) t) (bix (cols ssh) f)
                                     - at3 ssv a (bix (dim1 ssv) t) (bix (dim2 ssv) f) / (1 + eps))\<rparr>))"

text \<open>The two forms of the log-likelihood of a cell: \<open>-np.log(np.maximum(delta, eps))\<close> and
  \<open>-np.power(delta, compression)\<close>. The power of a real base is \<open>powr\<close>; the two agree for
  \<open>delta \<ge> 0\<close> and a positive exponent.\<close>

definition tf_loglike :: "real \<Rightarrow> real \<Rightarrow> real nd3 \<Rightarrow> real nd3" where
  "tf_loglike compression eps delta =
     (if compression \<le> 0
      then delta\<lparr>at3 := (\<lambda>a t f. - ln (max (at3 delta a t f) eps))\<rparr>
      else delta\<lparr>at3 := (\<lambda>a t f. - ((at3 delta a t f) powr compression))\<rparr>)"

text \<open>Masking: \<open>np.sum(mask[None, ...] * tf_loglike, (1, 2))\<close> for a mask of two axes and
  \<open>np.einsum("ntf,atf->na", mask, tf_loglike)\<close> for a mask of three.\<close>

definition masked_sum :: "real nd2 \<Rightarrow> real nd3 \<Rightarrow> error + real list" where
  "masked_sum msk x =
     (case bdim (rows msk) (dim1 x) of
        Inl e \<Rightarrow> Inl e
      | Inr T \<Rightarrow>
          (case bdim (cols msk) (dim2 x) of
             Inl e \<Rightarrow> Inl e
           | Inr F \<Rightarrow>
               Inr (map (\<lambda>a. \<Sum>t<T. \<Sum>f<F. at2 msk (bix (rows msk) t) (bix (cols msk) f)
                                           * at3 x a (bix (dim1 x) t) (bix (dim2 x) f))
                        [0..<dim0 x])))"

definition masked_contract :: "real nd3 \<Rightarrow> real nd3 \<Rightarrow> error + real list list" where
  "masked_contract msk x =
     (case bdim (dim1 msk) (dim1 x) of
        Inl e \<Rightarrow> Inl e
      | Inr T \<Rightarrow>
          (case bdim (dim2 msk) (dim2 x) of
             Inl e \<Rightarrow> Inl e
           | Inr F \<Rightarrow>
               Inr (map (\<lambda>n. map (\<lambda>a. \<Sum>t<T. \<Sum>f<F.
                                      at3 msk n (bix (dim1 msk) t) (bix (dim2 msk) f)
                                      * at3 x a (bix (dim1 x) t) (bix (dim2 x) f))
                                  [0..<dim0 x])
                        [0..<dim0 msk])))"

text \<open>The scores \<open>loglike\<close> of \<open>ml_ssl\<close> (lines 23 to 42) and the function itself.\<close>

definition ml_loglike ::
  "(complex \<Rightarrow> real) \<Rightarrow> complex nd3 \<Rightarrow> complex nd3 \<Rightarrow> real \<Rightarrow> real \<Rightarrow> bool \<Rightarrow> tf_mask option
     \<Rightarrow> error + scores" where
  "ml_loglike mag stft sv compression eps do_norm mask_opt =
     (let msk = (case mask_opt of None \<Rightarrow> Mask2 (ones (dim1 stft) (dim2 stft)) | Some m \<Rightarrow> m);
          sv = sv_normalize sv;
          stft = (if do_norm then stft_normalize mag eps stft else stft)
      in case ssv_cor sv stft of
           Inl e \<Rightarrow> Inl e
         | Inr ssv \<Rightarrow>
             (case ml_delta eps (ssh_cor stft) ssv of
                Inl e \<Rightarrow> Inl e
              | Inr delta \<Rightarrow>
                  (case msk of
                     Mask2 m \<Rightarrow>
                       (case masked_sum m (tf_loglike compression eps delta) of
                          Inl e \<Rightarrow> Inl e | Inr l \<Rightarrow> Inr (Scores1 l))
                   | Mask3 m \<Rightarrow>
                       (case masked_contract m (tf_loglike compression eps delta) of
                          Inl e \<Rightarrow> Inl e | Inr l \<Rightarrow> Inr (Scores2 l)))))"

definition ml_ssl ::
  "(complex \<Rightarrow> real) \<Rightarrow> complex nd3 \<Rightarrow> complex nd3 \<Rightarrow> real \<Rightarrow> real \<Rightarrow> bool \<Rightarrow> tf_mask option
     \<Rightarrow> error + doa" where
  "ml_ssl mag stft sv compression eps do_norm mask_opt =
     (case ml_loglike mag stft sv compression eps do_norm mask_opt of
        Inl e \<Rightarrow> Inl e
      | Inr (Scores1 l) \<Rightarrow> (case np_argmax l of Inl e \<Rightarrow> Inl e | Inr i \<Rightarrow> Inr (Doa i))
      | Inr (Scores2 ls) \<Rightarrow>
          (if dim0 sv = 0 then Inl ValueError else Inr (Doas (map argmax_first ls))))"

subsection \<open>\<open>srp_ssl\<close>\<close>

text \<open>
  Indexing an axis of length \<open>n\<close> with a list of Python integers: a negative index counts
  from the end, an index outside \<open>-n \<le> i < n\<close> raises \<open>IndexError\<close>. \<open>take_axis0 a idx\<close> is
  \<open>a[idx]\<close> and \<open>take_axis1 a idx\<close> is \<open>a[:, idx]\<close>.
\<close>

definition index_ok :: "nat \<Rightarrow> int \<Rightarrow> bool" where
  "index_ok n i \<longleftrightarrow> - int n \<le> i \<and> i < int n"

definition norm_index :: "nat \<Rightarrow> int \<Rightarrow> nat" where
  "norm_index n i = nat (if i < 0 then i + int n else i)"

definition take_axis0 :: "'a nd3 \<Rightarrow> int list \<Rightarrow> error + 'a nd3" where
  "take_axis0 a idx =
     (if list_all (index_ok (dim0 a)) idx
      then Inr \<lparr>dim0 = length idx, dim1 = dim1 a, dim2 = dim2 a,
                 at3 = (\<lambda>p t f. at3 a (norm_index (dim0 a) (idx ! p)) t f)\<rparr>
      else Inl IndexError)"

definition take_axis1 :: "'a nd3 \<Rightarrow> int list \<Rightarrow> error + 'a nd3" where
  "take_axis1 a idx =
     (if list_all (index_ok (dim1 a)) idx
      then Inr \<lparr>dim0 = dim0 a, dim1 = length idx, dim2 = dim2 a,
                 at3 = (\<lambda>d p f. at3 a d (norm_index (dim1 a) (idx ! p)) f)\<rparr>
      else Inl IndexError)"

text \<open>\<open>np.angle\<close>, entrywise: the argument in \<open>(-\<pi>, \<pi>]\<close>, and 0 at 0.\<close>

definition angle :: "complex nd3 \<Rightarrow> real nd3" where
  "angle a = \<lparr>dim0 = dim0 a, dim1 = dim1 a, dim2 = dim2 a, at3 = (\<lambda>i j k. Arg (at3 a i j k))\<rparr>"

text \<open>The difference of two arrays of three axes, with broadcasting.\<close>

definition bsub3 :: "real nd3 \<Rightarrow> real nd3 \<Rightarrow> error + real nd3" where
  "bsub3 a b =
     (case bdim (dim0 a) (dim0 b) of
        Inl e \<Rightarrow> Inl e
      | Inr d0 \<Rightarrow>
          (case bdim (dim1 a) (dim1 b) of
             Inl e \<Rightarrow> Inl e
           | Inr d1 \<Rightarrow>
               (case bdim (dim2 a) (dim2 b) of
                  Inl e \<Rightarrow> Inl e
                | Inr d2 \<Rightarrow>
                    Inr \<lparr>dim0 = d0, dim1 = d1, dim2 = d2,
                          at3 = (\<lambda>i j k. at3 a (bix (dim0 a) i) (bix (dim1 a) j) (bix (dim2 a) k)
                                         - at3 b (bix (dim0 b) i) (bix (dim1 b) j) (bix (dim2 b) k))\<rparr>)))"

text \<open>
  Lines 72 to 74: \<open>af = np.cos(obs_ipd[None, ...] - ora_ipd[..., None, :])\<close>, of shape
  A x P x T x F, followed by \<open>np.mean(af, 1)\<close>. \<open>obs_ipd\<close> has shape P x T x F and \<open>ora_ipd\<close>
  has shape A x P' x F'.
\<close>

definition srp_af :: "real nd3 \<Rightarrow> real nd3 \<Rightarrow> error + real nd3" where
  "srp_af obs_ipd ora_ipd =
     (case bdim (dim0 obs_ipd) (dim1 ora_ipd) of
        Inl e \<Rightarrow> Inl e
      | Inr P \<Rightarrow>
          (case bdim (dim2 obs_ipd) (dim2 ora_ipd) of
             Inl e \<Rightarrow> Inl e
           | Inr F \<Rightarrow>
               Inr \<lparr>dim0 = dim0 ora_ipd, dim1 = dim1 obs_ipd, dim2 = F,
                     at3 = (\<lambda>a t f. (\<Sum>p<P. cos (at3 obs_ipd (bix (dim0 obs_ipd) p) t (bix (dim2 obs_ipd) f)
                                               - at3 ora_ipd a (bix (dim1 ora_ipd) p) (bix (dim2 ora_ipd) f)))
                                     / real P)\<rparr>))"

text \<open>\<open>srp_ssl\<close>. The channel pairs are a pair of index lists, or \<open>None\<close>; the mask has
  shape T x F.\<close>

definition srp_ssl ::
  "complex nd3 \<Rightarrow> complex nd3 \<Rightarrow> (int list \<times> int list) option \<Rightarrow> real nd2 option \<Rightarrow> error + nat" where
  "srp_ssl stft sv srp_pair mask_opt =
     (case srp_pair of
        None \<Rightarrow> Inl ValueError
      | Some (index_l, index_r) \<Rightarrow>
          (let msk = (case mask_opt of None \<Rightarrow> ones (dim1 stft) (dim2 stft) | Some m \<Rightarrow> m);
               obs_pha = angle stft;
               ora_pha = angle sv
           in case take_axis0 obs_pha index_l of Inl e \<Rightarrow> Inl e | Inr obs_l \<Rightarrow>
              case take_axis0 obs_pha index_r of Inl e \<Rightarrow> Inl e | Inr obs_r \<Rightarrow>
              case bsub3 obs_l obs_r of Inl e \<Rightarrow> Inl e | Inr obs_ipd \<Rightarrow>
              case take_axis1 ora_pha index_l of Inl e \<Rightarrow> Inl e | Inr ora_l \<Rightarrow>
              case take_axis1 ora_pha index_r of Inl e \<Rightarrow> Inl e | Inr ora_r \<Rightarrow>
              case bsub3 ora_l ora_r of Inl e \<Rightarrow> Inl e | Inr ora_ipd \<Rightarrow>
              case srp_af obs_ipd ora_ipd of Inl e \<Rightarrow> Inl e | Inr af \<Rightarrow>
              case masked_sum msk af of Inl e \<Rightarrow> Inl e | Inr srp \<Rightarrow> np_argmax srp))"

subsection \<open>\<open>music_ssl\<close>\<close>

text \<open>\<open>stft * mask\<close>: shapes M x T x F and T' x F'.\<close>

definition apply_mask :: "complex nd3 \<Rightarrow> real nd2 \<Rightarrow> error + complex nd3" where
  "apply_mask stft msk =
     (case bdim (dim1 stft) (rows msk) of
        Inl e \<Rightarrow> Inl e
      | Inr T \<Rightarrow>
          (case bdim (dim2 stft) (cols msk) of
             Inl e \<Rightarrow> Inl e
           | Inr F \<Rightarrow>
               Inr \<lparr>dim0 = dim0 stft, dim1 = T, dim2 = F,
                     at3 = (\<lambda>m t f. at3 stft m (bix (dim1 stft) t) (bix (dim2 stft) f)
                                     * of_real (at2 msk (bix (rows msk) t) (bix (cols msk) f)))\<rparr>))"

text \<open>
  \<open>obs_covar\<close> (line 96), for the bin \<open>f\<close>: the outer products of the masked spectra summed
  over the frames and divided by the frame count \<open>T\<close> of \<open>stft\<close>.
\<close>

definition obs_covar :: "nat \<Rightarrow> complex nd3 \<Rightarrow> nat \<Rightarrow> cmatrix" where
  "obs_covar T obs f = (\<lambda>a b. (\<Sum>t<dim1 obs. at3 obs a t f * cnj (at3 obs b t f)) / of_nat T)"

text \<open>
  \<open>noise_sub = v[..., :-1]\<close> and \<open>noise_covar\<close> (lines 100 and 102) for one bin: \<open>v\<close> is the M x M
  matrix whose columns are the eigenvectors, and the last column is left out.
\<close>

definition noise_covar :: "nat \<Rightarrow> cmatrix \<Rightarrow> cmatrix" where
  "noise_covar M v = (\<lambda>a b. \<Sum>k<M - 1. v a k * cnj (v b k))"

text \<open>
  \<open>music_ssl\<close>. \<open>np.linalg.eigh\<close> is LAPACK's Hermitian eigensolver: for an M x M matrix it
  returns the eigenvalues in ascending order and a matrix whose column \<open>k\<close> is an eigenvector
  for eigenvalue \<open>k\<close>. It is the parameter \<open>eigh\<close>, applied to each bin.
\<close>

definition music_score ::
  "(nat \<Rightarrow> cmatrix \<Rightarrow> (nat \<Rightarrow> real) \<times> cmatrix) \<Rightarrow> complex nd3 \<Rightarrow> complex nd3 \<Rightarrow> real nd2 option
     \<Rightarrow> error + real list" where
  "music_score eigh stft sv mask_opt =
     (let msk = (case mask_opt of None \<Rightarrow> ones (dim1 stft) (dim2 stft) | Some m \<Rightarrow> m)
      in case apply_mask stft msk of
           Inl e \<Rightarrow> Inl e
         | Inr obs \<Rightarrow>
             (let M = dim0 obs;
                  v = (\<lambda>f. snd (eigh M (obs_covar (dim1 stft) obs f)));
                  ncov = (\<lambda>f. noise_covar M (v f))
              in case bdim (dim2 sv) (dim2 obs) of
                   Inl e \<Rightarrow> Inl e
                 | Inr F \<Rightarrow>
                     (case bdim (dim1 sv) M of
                        Inl e \<Rightarrow> Inl e
                      | Inr K \<Rightarrow>
                          Inr (map (\<lambda>a. \<Sum>f<F. cmod (\<Sum>i<K. \<Sum>j<K.
                                          cnj (at3 sv a (bix (dim1 sv) i) (bix (dim2 sv) f))
                                          * ncov (bix (dim2 obs) f) (bix M i) (bix M j)
                                          * at3 sv a (bix (dim1 sv) j) (bix (dim2 sv) f)))
                                   [0..<dim0 sv]))))"

definition music_ssl ::
  "(nat \<Rightarrow> cmatrix \<Rightarrow> (nat \<Rightarrow> real) \<times> cmatrix) \<Rightarrow> complex nd3 \<Rightarrow> complex nd3 \<Rightarrow> real nd2 option
     \<Rightarrow> error + nat" where
  "music_ssl eigh stft sv mask_opt =
     (case music_score eigh stft sv mask_opt of Inl e \<Rightarrow> Inl e | Inr score \<Rightarrow> np_argmin score)"

subsection \<open>The maximum-likelihood score in the words of the specification\<close>






subsection \<open>The MUSIC score in the words of the specification\<close>



section \<open>Spatial features: \<open>compute_ipd_and_linear_srp.py\<close>\<close>

text \<open>
  \<open>str.split(sep)\<close> for a separator of one character: the pieces between the separators,
  at least one piece.
\<close>

fun split_on :: "char \<Rightarrow> string \<Rightarrow> string list" where
  "split_on c [] = [[]]"
| "split_on c (x # xs) =
     (if x = c then [] # split_on c xs
      else (case split_on c xs of [] \<Rightarrow> [[x]] | p # ps \<Rightarrow> (x # p) # ps))"

text \<open>
  \<open>int(s)\<close> for a string of ASCII characters: white space around the number is dropped,
  one sign may come first, and the decimal digits may be grouped by single underscores.
  Anything else raises \<open>ValueError\<close>.
\<close>

definition is_space :: "char \<Rightarrow> bool" where
  "is_space c \<longleftrightarrow> (let n = (of_char c :: nat) in (9 \<le> n \<and> n \<le> 13) \<or> (28 \<le> n \<and> n \<le> 32))"

definition is_digit :: "char \<Rightarrow> bool" where
  "is_digit c \<longleftrightarrow> (let n = (of_char c :: nat) in 48 \<le> n \<and> n \<le> 57)"

definition strip :: "string \<Rightarrow> string" where
  "strip s = rev (dropWhile is_space (rev (dropWhile is_space s)))"

fun parse_digits :: "string \<Rightarrow> nat \<Rightarrow> nat option" where
  "parse_digits [] acc = Some acc"
| "parse_digits (c # cs) acc =
     (if is_digit c then parse_digits cs (10 * acc + (of_char c - 48))
      else if c = CHR ''_'' then
        (case cs of [] \<Rightarrow> None | d # _ \<Rightarrow> if is_digit d then parse_digits cs acc else None)
      else None)"

definition py_int :: "string \<Rightarrow> error + int" where
  "py_int s =
     (let t = strip s;
          sgn = (case t of [] \<Rightarrow> 1 | c # _ \<Rightarrow> if c = CHR ''-'' then - 1 else (1 :: int));
          body = (case t of [] \<Rightarrow> [] | c # r \<Rightarrow> if c = CHR ''-'' \<or> c = CHR ''+'' then r else t)
      in case body of
           [] \<Rightarrow> Inl ValueError
         | c # _ \<Rightarrow>
             if is_digit c
             then (case parse_digits body 0 of None \<Rightarrow> Inl ValueError | Some n \<Rightarrow> Inr (sgn * int n))
             else Inl ValueError)"

text \<open>\<open>list(map(int, p.split(",")))\<close>: the first piece that is not a number raises.\<close>

fun map_int :: "string list \<Rightarrow> error + int list" where
  "map_int [] = Inr []"
| "map_int (s # ss) =
     (case py_int s of
        Inl e \<Rightarrow> Inl e
      | Inr i \<Rightarrow> (case map_int ss of Inl e \<Rightarrow> Inl e | Inr js \<Rightarrow> Inr (i # js)))"

definition parse_pair :: "string \<Rightarrow> error + int list" where
  "parse_pair p = map_int (split_on CHR '','' p)"

text \<open>
  The spectrogram of an utterance has the axes T x F for one channel and N x T x F for
  several. \<open>S[i]\<close> for a Python integer \<open>i\<close> is the channel \<open>i\<close>, counted from the end when
  \<open>i\<close> is negative; outside the range numpy raises \<open>IndexError\<close>.
\<close>

datatype spectrogram = Mono "complex nd2" | Multi "complex nd3"

definition get_channel :: "complex nd3 \<Rightarrow> int \<Rightarrow> error + complex nd2" where
  "get_channel S i =
     (if index_ok (dim0 S) i
      then Inr \<lparr>rows = dim1 S, cols = dim2 S, at2 = at3 S (norm_index (dim0 S) i)\<rparr>
      else Inl IndexError)"

text \<open>\<open>np.hstack\<close> of a list of matrices: side by side. It raises \<open>ValueError\<close> on an empty
  list and when the row counts differ.\<close>

fun hstack_at :: "real nd2 list \<Rightarrow> nat \<Rightarrow> nat \<Rightarrow> real" where
  "hstack_at [] r c = 0"
| "hstack_at (m # ms) r c = (if c < cols m then at2 m r c else hstack_at ms r (c - cols m))"

definition np_hstack :: "real nd2 list \<Rightarrow> error + real nd2" where
  "np_hstack ms =
     (if ms = [] then Inl ValueError
      else if \<not> list_all (\<lambda>m. rows m = rows (hd ms)) ms then Inl ValueError
      else Inr \<lparr>rows = rows (hd ms), cols = sum_list (map cols ms), at2 = hstack_at ms\<rparr>)"

text \<open>
  The arguments read by \<open>compute_spatial_feats\<close> on the IPD path (\<open>args.type\<close> is the field
  \<open>feat_type\<close>), and the three feature functions of \<open>libs/spatial.py\<close>, which is not among
  the sources: they are parameters, collected in a record. \<open>srp_phat_linear\<close> and \<open>msc\<close>
  stand for the whole calls of lines 31 and 49.
\<close>

record args =
  feat_type :: string
  ipd_pair :: string
  ipd_cos :: bool
  ipd_sin :: bool

record spatial_lib =
  srp_phat_linear :: "args \<Rightarrow> spectrogram \<Rightarrow> error + real nd2"
  ipd :: "complex nd2 \<Rightarrow> complex nd2 \<Rightarrow> bool \<Rightarrow> bool \<Rightarrow> error + real nd2"
  msc :: "args \<Rightarrow> spectrogram \<Rightarrow> error + real nd2"

text \<open>The loop over the pairs (lines 36 to 45); \<open>ipd_list\<close> is the accumulator.\<close>

fun ipd_loop ::
  "spatial_lib \<Rightarrow> args \<Rightarrow> complex nd3 \<Rightarrow> string list \<Rightarrow> real nd2 list \<Rightarrow> error + real nd2 list" where
  "ipd_loop lib a S [] ipd_list = Inr ipd_list"
| "ipd_loop lib a S (p # ps) ipd_list =
     (case parse_pair p of
        Inl e \<Rightarrow> Inl e
      | Inr indexes \<Rightarrow>
          if length indexes \<noteq> 2 then Inl ValueError
          else (let L = indexes ! 0; R = indexes ! 1
                in if R > int (dim0 S) then Inl RuntimeError
                   else (case get_channel S L of
                           Inl e \<Rightarrow> Inl e
                         | Inr SL \<Rightarrow>
                             (case get_channel S R of
                                Inl e \<Rightarrow> Inl e
                              | Inr SR \<Rightarrow>
                                  (case ipd lib SL SR (ipd_cos a) (ipd_sin a) of
                                     Inl e \<Rightarrow> Inl e
                                   | Inr ipd_mat \<Rightarrow> ipd_loop lib a S ps (ipd_list @ [ipd_mat]))))))"

definition compute_spatial_feats :: "spatial_lib \<Rightarrow> args \<Rightarrow> spectrogram \<Rightarrow> error + real nd2" where
  "compute_spatial_feats lib a S =
     (if feat_type a = ''srp'' then srp_phat_linear lib a S
      else if feat_type a = ''ipd'' then
        (case S of
           Mono _ \<Rightarrow> Inl ValueError
         | Multi S3 \<Rightarrow>
             (case ipd_loop lib a S3 (split_on CHR '';'' (ipd_pair a)) [] of
                Inl e \<Rightarrow> Inl e
              | Inr ipd_list \<Rightarrow> np_hstack ipd_list))
      else msc lib a S)"

text \<open>A feature function for examples: the phase difference of two channels.\<close>

definition phase_difference :: "complex nd2 \<Rightarrow> complex nd2 \<Rightarrow> bool \<Rightarrow> bool \<Rightarrow> error + real nd2" where
  "phase_difference si sj c s =
     Inr \<lparr>rows = rows si, cols = cols si, at2 = (\<lambda>t f. Arg (at2 si t f) - Arg (at2 sj t f))\<rparr>"

section \<open>Properties\<close>

subsection \<open>Helper lemmas\<close>

lemma argmax_from_bounds:
  "b < i \<Longrightarrow> argmax_from xs i b v < i + length xs"
  by (induction xs i b v rule: argmax_from.induct) auto

lemma argmax_first_less: "xs \<noteq> [] \<Longrightarrow> argmax_first xs < length xs"
  using argmax_from_bounds[of 0 1] by (cases xs) (auto simp: argmax_first_def)

lemma sum_of_bool_eq: "k < (n::nat) \<Longrightarrow> (\<Sum>s<n. of_bool (k = s)) = (1::nat)"
proof -
  assume k: "k < n"
  have "(\<Sum>s<n. of_bool (k = s)) = (\<Sum>s\<in>{..<n}. if k = s then 1 else (0::nat))"
    by (rule sum.cong) (simp_all add: of_bool_def)
  also have "\<dots> = (if k \<in> {..<n} then 1 else 0)"
    by (rule sum.delta') simp
  finally show ?thesis using k by simp
qed

lemma np_stack_ok:
  "ms \<noteq> [] \<Longrightarrow> \<forall>m\<in>set ms. rows m = r \<and> cols m = c \<Longrightarrow>
   np_stack ms = Inr \<lparr>dim0 = length ms, dim1 = r, dim2 = c, at3 = (\<lambda>s t f. at2 (ms ! s) t f)\<rparr>"
  by (cases ms) (auto simp: np_stack_def list_all_iff)

subsection \<open>The linear solver\<close>

lemma mat_vec_pivot_step:
  assumes c: "fst Ab p k \<noteq> 0"
  shows "mat_vec N (fst (pivot_step p k Ab)) x i =
           (if i = k then mat_vec N (fst Ab) x p / fst Ab p k
            else mat_vec N (swap_rows p k (fst Ab)) x i
                 - swap_rows p k (fst Ab) i k * (mat_vec N (fst Ab) x p / fst Ab p k))"
proof (cases "i = k")
  case True
  then show ?thesis
    by (simp add: mat_vec_def pivot_step_def Let_def swap_rows_def sum_divide_distrib)
next
  case False
  let ?A1 = "swap_rows p k (fst Ab)"
  have "(\<Sum>j<N. (?A1 i j - ?A1 i k * (?A1 k j / ?A1 k k)) * x j)
        = (\<Sum>j<N. ?A1 i j * x j) - ?A1 i k * ((\<Sum>j<N. ?A1 k j * x j) / ?A1 k k)"
    by (simp add: sum_subtractf sum_distrib_left sum_divide_distrib algebra_simps)
  moreover have "?A1 k = fst Ab p" by (simp add: swap_rows_def)
  ultimately show ?thesis using False
    by (simp add: mat_vec_def pivot_step_def Let_def)
qed

lemma solves_pivot_step:
  assumes p: "p < N" and k: "k < N" and c: "fst Ab p k \<noteq> 0"
  shows "solves N (fst (pivot_step p k Ab)) (snd (pivot_step p k Ab)) x
           \<longleftrightarrow> solves N (fst Ab) (snd Ab) x"
proof
  assume R: "solves N (fst Ab) (snd Ab) x"
  show "solves N (fst (pivot_step p k Ab)) (snd (pivot_step p k Ab)) x"
    unfolding solves_def
  proof (intro allI impI)
    fix i assume i: "i < N"
    have sw: "mat_vec N (swap_rows p k (fst Ab)) x i = swap_rows p k (snd Ab) i"
      using R i p k by (auto simp: solves_def mat_vec_def swap_rows_def)
    have pp: "mat_vec N (fst Ab) x p = snd Ab p" using R p by (simp add: solves_def)
    show "mat_vec N (fst (pivot_step p k Ab)) x i = snd (pivot_step p k Ab) i"
      unfolding mat_vec_pivot_step[OF c] sw pp
      by (simp add: pivot_step_def Let_def swap_rows_def)
  qed
next
  assume L: "solves N (fst (pivot_step p k Ab)) (snd (pivot_step p k Ab)) x"
  have row: "mat_vec N (fst (pivot_step p k Ab)) x i = snd (pivot_step p k Ab) i" if "i < N" for i
    using L that by (simp add: solves_def)
  have pp: "mat_vec N (fst Ab) x p = snd Ab p"
    using row[OF k] c unfolding mat_vec_pivot_step[OF c]
    by (simp add: pivot_step_def Let_def swap_rows_def)
  have other: "mat_vec N (swap_rows p k (fst Ab)) x i = swap_rows p k (snd Ab) i"
    if "i < N" "i \<noteq> k" for i
    using row[OF that(1)] that(2) unfolding mat_vec_pivot_step[OF c] pp
    by (simp add: pivot_step_def Let_def swap_rows_def)
  show "solves N (fst Ab) (snd Ab) x"
    unfolding solves_def
  proof (intro allI impI)
    fix i assume i: "i < N"
    show "mat_vec N (fst Ab) x i = snd Ab i"
    proof (cases "i = p")
      case True then show ?thesis using pp by simp
    next
      case ip: False
      show ?thesis
      proof (cases "i = k")
        case True
        with ip have pk: "p \<noteq> k" by simp
        from other[OF p pk] True pk show ?thesis
          by (simp add: mat_vec_def swap_rows_def)
      next
        case False
        from other[OF i False] ip False show ?thesis
          by (simp add: mat_vec_def swap_rows_def)
      qed
    qed
  qed
qed

lemma unit_below_pivot_step:
  assumes u: "unit_below N k (fst Ab)" and p: "k \<le> p" "p < N" and c: "fst Ab p k \<noteq> 0"
  shows "unit_below N (Suc k) (fst (pivot_step p k Ab))"
  unfolding unit_below_def
proof (intro allI impI)
  fix j i assume j: "j < Suc k" and i: "i < N"
  let ?A = "fst Ab"
  show "fst (pivot_step p k Ab) i j = (if i = j then 1 else 0)"
  proof (cases "j = k")
    case True
    then show ?thesis using c by (simp add: pivot_step_def Let_def swap_rows_def)
  next
    case False
    with j have jk: "j < k" by simp
    have pj: "?A p j = 0" using u jk p by (simp add: unit_below_def)
    have kj: "?A k j = 0" using u jk p by (simp add: unit_below_def)
    have ij: "?A i j = (if i = j then 1 else 0)" using u jk i by (simp add: unit_below_def)
    show ?thesis using pj kj ij jk p
      by (auto simp: pivot_step_def Let_def swap_rows_def)
  qed
qed

lemma find_pivot:
  "find (\<lambda>i. A i k \<noteq> 0) [k..<N] = Some p \<Longrightarrow> k \<le> p \<and> p < N \<and> A p k \<noteq> (0::complex)"
  by (auto simp: find_Some_iff)








text \<open>Conversely, elimination finds a pivot in every column of a matrix that is not
  singular: the solver raises exactly on the singular matrices.\<close>

lemma singular_solves: "singular N A \<longleftrightarrow> (\<exists>v. (\<exists>i<N. v i \<noteq> 0) \<and> solves N A (\<lambda>_. 0) v)"
  by (simp add: singular_def solves_def)

lemma pivot_step_fst: "fst (pivot_step p k (A, b)) = fst (pivot_step p k (A, b'))"
  by (simp add: pivot_step_def Let_def)

lemma pivot_step_zero: "snd (pivot_step p k (A, \<lambda>_. 0)) = (\<lambda>_. 0)"
  by (rule ext) (simp add: pivot_step_def Let_def swap_rows_def)

lemma singular_pivot_step:
  assumes "p < N" "k < N" "fst Ab p k \<noteq> 0"
  shows "singular N (fst (pivot_step p k Ab)) \<longleftrightarrow> singular N (fst Ab)"
proof -
  let ?Z = "(fst Ab, (\<lambda>_. 0) :: cvector)"
  have f: "fst (pivot_step p k Ab) = fst (pivot_step p k ?Z)"
    using pivot_step_fst[of p k "fst Ab" "snd Ab" "\<lambda>_. 0"] by simp
  have "solves N (fst (pivot_step p k ?Z)) (\<lambda>_. 0) v \<longleftrightarrow> solves N (fst Ab) (\<lambda>_. 0) v" for v
    using solves_pivot_step[of p N k ?Z v] assms by (simp add: pivot_step_zero)
  then show ?thesis unfolding singular_solves f by simp
qed

lemma no_pivot_singular:
  assumes u: "unit_below N k A" and k: "k < N" and z: "\<forall>i. k \<le> i \<and> i < N \<longrightarrow> A i k = 0"
  shows "singular N A"
proof -
  define v :: cvector where "v = (\<lambda>j. if j = k then 1 else if j < k then - A j k else 0)"
  have "mat_vec N A v i = 0" if i: "i < N" for i
  proof -
    have t: "A i j * v j = (if j = k then A i k else 0) + (if j = i then (if i < k then - A i k else 0) else 0)"
      if "j < N" for j
    proof (cases "j = k")
      case True
      then show ?thesis using i by (auto simp: v_def)
    next
      case False
      show ?thesis
      proof (cases "j < k")
        case True
        then have "A i j = (if i = j then 1 else 0)" using u i by (simp add: unit_below_def)
        then show ?thesis using True False by (auto simp: v_def)
      next
        case False
        then show ?thesis using \<open>j \<noteq> k\<close> by (auto simp: v_def)
      qed
    qed
    have "mat_vec N A v i = (\<Sum>j<N. (if j = k then A i k else 0) + (if j = i then (if i < k then - A i k else 0) else 0))"
      unfolding mat_vec_def by (intro sum.cong refl) (simp add: t)
    also have "\<dots> = A i k + (if i < k then - A i k else 0)"
      using k i by (simp add: sum.distrib sum.delta)
    also have "\<dots> = 0" using z i by (cases "i < k") auto
    finally show ?thesis .
  qed
  moreover have "v k \<noteq> 0" by (simp add: v_def)
  ultimately show ?thesis using k unfolding singular_def by blast
qed

lemma eliminate_complete:
  "N - k = d \<Longrightarrow> unit_below N k (fst Ab) \<Longrightarrow> \<not> singular N (fst Ab) \<Longrightarrow>
   \<exists>Ab'. eliminate N [k..<N] Ab = Some Ab'"
proof (induction d arbitrary: k Ab)
  case 0
  then show ?case by simp
next
  case (Suc d)
  then have kN: "k < N" by simp
  then have upt: "[k..<N] = k # [Suc k..<N]" by (simp add: upt_conv_Cons)
  show ?case
  proof (cases "find (\<lambda>i. fst Ab i k \<noteq> 0) [k..<N]")
    case None
    then have "\<forall>i. k \<le> i \<and> i < N \<longrightarrow> fst Ab i k = 0"
      by (auto simp: find_None_iff)
    from no_pivot_singular[OF Suc.prems(2) kN this] Suc.prems(3) show ?thesis by simp
  next
    case (Some p)
    from find_pivot[of "fst Ab" k N p, OF Some] have p: "k \<le> p" "p < N" "fst Ab p k \<noteq> 0" by auto
    have d: "N - Suc k = d" using Suc.prems(1) by simp
    have ns: "\<not> singular N (fst (pivot_step p k Ab))"
      using singular_pivot_step[OF p(2) kN p(3)] Suc.prems(3) by simp
    from Suc.IH[OF d unit_below_pivot_step[OF Suc.prems(2) p] ns]
    obtain Ab' where "eliminate N [Suc k..<N] (pivot_step p k Ab) = Some Ab'" by blast
    then have "eliminate N (k # [Suc k..<N]) Ab = Some Ab'" using Some by simp
    then show ?thesis using upt by auto
  qed
qed

lemma linalg_solve_nonsingular:
  assumes "\<not> singular N A"
  shows "\<exists>x. linalg_solve N A b = Inr x"
proof -
  have "unit_below N 0 (fst (A, b))" by (simp add: unit_below_def)
  from eliminate_complete[OF refl this] assms
  obtain Ab' where "eliminate N [0..<N] (A, b) = Some Ab'" by auto
  then show ?thesis by (simp add: linalg_solve_def)
qed

subsection \<open>Loops\<close>



lemma demix_identity:
  "x < N \<Longrightarrow> demix N X eye f t x = X f t x"
proof -
  assume x: "x < N"
  have "(\<Sum>n<N. X f t n * cnj (if n = x then 1 else 0)) = (\<Sum>n\<in>{..<N}. if n = x then X f t n else 0)"
    by (rule sum.cong) simp_all
  also have "\<dots> = X f t x" using x by (simp add: sum.delta)
  finally show ?thesis by (simp add: demix_def eye_def)
qed

subsection \<open>AuxIVA\<close>


text \<open>
  Claim C1. After the update of column \<open>n\<close> of \<open>W[f]\<close> the new column \<open>w'\<close> should satisfy
  \<open>w'\<^sup>H V w' = 1\<close>. The source divides the solution \<open>w\<close> by \<open>w\<^sup>H V w\<close> itself and not by
  its square root, so the new column has \<open>w'\<^sup>H V w' = 1 / (w\<^sup>H V w)\<close>. The first update
  of a run on the one-channel, one-frame, one-bin mixture with the entry 1, with
  \<open>EPSILON = 2\<^sup>-\<^sup>2\<^sup>3\<close> (the float32 machine epsilon), gives \<open>8388608 / 8388609\<close>.
\<close>

theorem auxiva_update_column_not_unit:
  "let X = \<lparr>dim0 = 1, dim1 = 1, dim2 = 1, at3 = (\<lambda>n t f. 1)\<rparr>;
       Gr = aux_weight (1 / 8388608) 1 (demix 1 (transposed X) eye);
       V = weighted_cov 1 (Gr 0) (transposed X 0)
   in case update_column 1 1 (Gr 0) (transposed X 0) (eye 0) 0 of
        Inl e \<Rightarrow> False
      | Inr Wf \<Rightarrow> quad_form 1 V (\<lambda>i. Wf i 0) = 8388608 / 8388609
                  \<and> quad_form 1 V (\<lambda>i. Wf i 0) \<noteq> 1"
  by (simp add: Let_def update_column_def linalg_solve_def pivot_step_def swap_rows_def weighted_cov_def
        solve_matrix_def quad_form_def mat_vec_def aux_weight_def demix_def eye_def transposed_def)

text \<open>
  Claim C2. With no pass of the outer loop (\<open>epochs \<le> 0\<close>) \<open>auxiva\<close> returns the mixture
  itself: the same shape and the same entry at every index. The mixture has at least one
  frequency bin, as every spectrogram has.
\<close>

theorem auxiva_zero_epochs:
  assumes "0 < dim2 X" and "epochs \<le> 0"
  shows "\<exists>Y. auxiva EPSILON X epochs = Inr Y
            \<and> dim0 Y = dim0 X \<and> dim1 Y = dim1 X \<and> dim2 Y = dim2 X
            \<and> (\<forall>n<dim0 X. \<forall>t<dim1 X. \<forall>f<dim2 X. at3 Y n t f = at3 X n t f)"
  using assms by (simp add: auxiva_def Let_def demix_identity epochs_loop_def transposed_def)

theorem auxiva_zero_epochs_witness:
  "\<exists>Y. auxiva 1 \<lparr>dim0 = 1, dim1 = 1, dim2 = 1, at3 = (\<lambda>n t f. 5)\<rparr> 0 = Inr Y
       \<and> dim0 Y = 1 \<and> dim1 Y = 1 \<and> dim2 Y = 1 \<and> at3 Y 0 0 0 = 5"
  using auxiva_zero_epochs[of "\<lparr>dim0 = 1, dim1 = 1, dim2 = 1, at3 = (\<lambda>n t f. 5)\<rparr>" 0 1]
  by auto



subsection \<open>Ideal binary masks\<close>

text \<open>
  Claim C10. For mask type "ibm", \<open>compute_mask\<close> returns one boolean mask per target;
  in every time-frequency cell exactly one of the masks is set, so the masks add up to
  the all-ones array. The masks take the common shape of the targets, which are spectra
  of the same utterance as the mixture and share its shape; the call needs at least one
  target (\<open>np.stack\<close> raises on an empty list and on targets of different shapes).
\<close>

theorem compute_mask_ibm_partition:
  assumes ne: "targets_list \<noteq> []"
      and sh: "\<forall>m\<in>set targets_list. rows m = rows mixture \<and> cols m = cols mixture"
  shows "\<exists>masks. compute_mask_ibm mag mixture targets_list = Inr masks
           \<and> length masks = length targets_list
           \<and> (\<forall>s<length masks. rows (masks ! s) = rows mixture \<and> cols (masks ! s) = cols mixture)
           \<and> (\<forall>t<rows mixture. \<forall>f<cols mixture.
                 (\<exists>!s. s < length masks \<and> at2 (masks ! s) t f)
                 \<and> (\<Sum>s<length masks. of_bool (at2 (masks ! s) t f)) = (1::nat))"
proof -
  let ?abs = "map (cmat_abs mag) targets_list"
  let ?n = "length targets_list"
  have st: "np_stack ?abs = Inr \<lparr>dim0 = ?n, dim1 = rows mixture, dim2 = cols mixture,
              at3 = (\<lambda>s t f. at2 (?abs ! s) t f)\<rparr>"
    using np_stack_ok[of ?abs "rows mixture" "cols mixture"] ne sh
    by (simp add: cmat_abs_def)
  define mi where "mi = (\<lambda>t f. argmax_first (map (\<lambda>s. at2 (?abs ! s) t f) [0..<?n]))"
  have mi_less: "mi t f < ?n" for t f
    unfolding mi_def using argmax_first_less[of "map (\<lambda>s. at2 (?abs ! s) t f) [0..<?n]"] ne
    by simp
  define masks where "masks = map (\<lambda>s. \<lparr>rows = rows mixture, cols = cols mixture,
                               at2 = (\<lambda>t f. mi t f = s)\<rparr>) [0..<?n]"
  have res: "compute_mask_ibm mag mixture targets_list = Inr masks"
    by (simp add: compute_mask_ibm_def st argmax_axis0_def masks_def mi_def Let_def)
  have len: "length masks = ?n" by (simp add: masks_def)
  have at: "at2 (masks ! s) t f \<longleftrightarrow> mi t f = s" if "s < ?n" for s t f
    using that by (simp add: masks_def)
  have one: "\<exists>!s. s < length masks \<and> at2 (masks ! s) t f" for t f
    using mi_less[of t f] at len by auto
  have sm: "(\<Sum>s<length masks. of_bool (at2 (masks ! s) t f)) = (1::nat)" for t f
  proof -
    have "(\<Sum>s<length masks. of_bool (at2 (masks ! s) t f)) = (\<Sum>s<?n. of_bool (mi t f = s) :: nat)"
      unfolding len by (rule sum.cong) (simp_all add: at)
    then show ?thesis using sum_of_bool_eq[OF mi_less] by simp
  qed
  have shp: "\<forall>s<length masks. rows (masks ! s) = rows mixture \<and> cols (masks ! s) = cols mixture"
    by (simp add: masks_def)
  show ?thesis using res len shp one sm by blast
qed

theorem compute_mask_ibm_partition_witness:
  "\<exists>masks. compute_mask_ibm cmod \<lparr>rows = 1, cols = 1, at2 = (\<lambda>t f. 3)\<rparr>
              [\<lparr>rows = 1, cols = 1, at2 = (\<lambda>t f. 1)\<rparr>, \<lparr>rows = 1, cols = 1, at2 = (\<lambda>t f. 2)\<rparr>] = Inr masks
     \<and> length masks = 2
     \<and> (\<Sum>s<2. of_bool (at2 (masks ! s) 0 0)) = (1::nat)"
proof -
  let ?ts = "[\<lparr>rows = 1, cols = 1, at2 = (\<lambda>t f. 1)\<rparr>, \<lparr>rows = 1, cols = 1, at2 = (\<lambda>t f. 2)\<rparr>]
               :: complex nd2 list"
  let ?mix = "\<lparr>rows = 1, cols = 1, at2 = (\<lambda>t f. 3)\<rparr> :: complex nd2"
  have ne: "?ts \<noteq> []" by simp
  have sh: "\<forall>m\<in>set ?ts. rows m = rows ?mix \<and> cols m = cols ?mix" by simp
  from compute_mask_ibm_partition[OF ne sh, of cmod]
  obtain masks where m: "compute_mask_ibm cmod ?mix ?ts = Inr masks" "length masks = length ?ts"
    and cell: "\<forall>t<rows ?mix. \<forall>f<cols ?mix.
                 (\<exists>!s. s < length masks \<and> at2 (masks ! s) t f)
                 \<and> (\<Sum>s<length masks. of_bool (at2 (masks ! s) t f)) = (1::nat)"
    by blast
  have l2: "length masks = 2" using m(2) by simp
  from cell have "(\<Sum>s<length masks. of_bool (at2 (masks ! s) 0 0)) = (1::nat)" by simp
  then have "(\<Sum>s<2. of_bool (at2 (masks ! s) 0 0)) = (1::nat)" unfolding l2 .
  with m(1) l2 show ?thesis by blast
qed

subsection \<open>Localisation: configuration and shape errors\<close>

text \<open>
  Claim C7. \<open>srp_ssl\<close> called without channel pairs raises \<open>ValueError\<close>, whatever the
  spectra, the steering vectors and the mask are: the check is the first statement of the
  function.
\<close>

theorem srp_ssl_requires_pairs: "srp_ssl stft sv None mask_opt = Inl ValueError"
  by (simp add: srp_ssl_def)

lemma bdim_mismatch: "a \<noteq> b \<Longrightarrow> a \<noteq> 1 \<Longrightarrow> b \<noteq> 1 \<Longrightarrow> bdim a b = Inl ValueError"
  by (simp add: bdim_def)

lemma bdim_Inr: "bdim a b = Inr c \<Longrightarrow> a \<noteq> 1 \<Longrightarrow> c = a"
  by (auto simp: bdim_def split: if_splits)

lemma bdim_same: "bdim a a = Inr a"
  by (simp add: bdim_def)

lemma ml_ssl_mismatch:
  assumes "dim2 sv \<noteq> dim2 stft" "dim2 sv \<noteq> 1" "dim2 stft \<noteq> 1"
  shows "isl (ml_ssl mag stft sv compression eps do_norm mask_opt)"
proof -
  have "isl (ssv_cor (sv_normalize sv) (if do_norm then stft_normalize mag eps stft else stft))"
    using bdim_mismatch[OF assms]
    by (auto simp: ssv_cor_def sv_normalize_def stft_normalize_def split: sum.splits)
  then show ?thesis
    by (auto simp: ml_ssl_def ml_loglike_def Let_def split: sum.splits)
qed

lemma take_axis0_dim2: "take_axis0 a idx = Inr b \<Longrightarrow> dim2 b = dim2 a"
  by (auto simp: take_axis0_def split: if_splits)

lemma take_axis1_dim2: "take_axis1 a idx = Inr b \<Longrightarrow> dim2 b = dim2 a"
  by (auto simp: take_axis1_def split: if_splits)

lemma bsub3_dim2: "bsub3 a b = Inr c \<Longrightarrow> dim2 a = dim2 b \<Longrightarrow> dim2 c = dim2 a"
  by (auto simp: bsub3_def bdim_same split: sum.splits)

lemma srp_af_mismatch:
  "dim2 a \<noteq> dim2 b \<Longrightarrow> dim2 a \<noteq> 1 \<Longrightarrow> dim2 b \<noteq> 1 \<Longrightarrow> isl (srp_af a b)"
  using bdim_mismatch[of "dim2 a" "dim2 b"] by (auto simp: srp_af_def split: sum.splits)

lemma srp_ssl_mismatch:
  assumes "dim2 sv \<noteq> dim2 stft" "dim2 sv \<noteq> 1" "dim2 stft \<noteq> 1"
  shows "isl (srp_ssl stft sv srp_pair mask_opt)"
proof (cases srp_pair)
  case None
  then show ?thesis by (simp add: srp_ssl_def)
next
  case (Some pr)
  obtain index_l index_r where pr: "pr = (index_l, index_r)" by (cases pr)
  show ?thesis
  proof (rule ccontr)
    assume "\<not> ?thesis"
    then obtain i where r: "srp_ssl stft sv (Some (index_l, index_r)) mask_opt = Inr i"
      using Some pr by (cases "srp_ssl stft sv srp_pair mask_opt") auto
    from r obtain obs_l obs_r obs_ipd ora_l ora_r ora_ipd af where
      s: "take_axis0 (angle stft) index_l = Inr obs_l" "take_axis0 (angle stft) index_r = Inr obs_r"
         "bsub3 obs_l obs_r = Inr obs_ipd"
         "take_axis1 (angle sv) index_l = Inr ora_l" "take_axis1 (angle sv) index_r = Inr ora_r"
         "bsub3 ora_l ora_r = Inr ora_ipd" "srp_af obs_ipd ora_ipd = Inr af"
      by (auto simp: srp_ssl_def Let_def split: sum.splits)
    have "dim2 obs_ipd = dim2 stft"
      using take_axis0_dim2[OF s(1)] take_axis0_dim2[OF s(2)] bsub3_dim2[OF s(3)]
      by (simp add: angle_def)
    moreover have "dim2 ora_ipd = dim2 sv"
      using take_axis1_dim2[OF s(4)] take_axis1_dim2[OF s(5)] bsub3_dim2[OF s(6)]
      by (simp add: angle_def)
    ultimately have "isl (srp_af obs_ipd ora_ipd)"
      using srp_af_mismatch[of obs_ipd ora_ipd] assms by simp
    with s(7) show False by simp
  qed
qed

lemma apply_mask_dim2: "apply_mask stft msk = Inr obs \<Longrightarrow> dim2 stft \<noteq> 1 \<Longrightarrow> dim2 obs = dim2 stft"
  by (auto simp: apply_mask_def split: sum.splits dest: bdim_Inr)

lemma music_ssl_mismatch:
  assumes "dim2 sv \<noteq> dim2 stft" "dim2 sv \<noteq> 1" "dim2 stft \<noteq> 1"
  shows "isl (music_ssl eigh stft sv mask_opt)"
proof -
  let ?msk = "case mask_opt of None \<Rightarrow> ones (dim1 stft) (dim2 stft) | Some m \<Rightarrow> m"
  show ?thesis
  proof (cases "apply_mask stft ?msk")
    case (Inl e)
    then show ?thesis by (simp add: music_ssl_def music_score_def Let_def)
  next
    case (Inr obs)
    from apply_mask_dim2[OF Inr assms(3)] have "bdim (dim2 sv) (dim2 obs) = Inl ValueError"
      using bdim_mismatch[OF assms] by simp
    with Inr show ?thesis by (simp add: music_ssl_def music_score_def Let_def)
  qed
qed

text \<open>
  Claim C6, as stated: an estimator called with steering vectors whose frequency axis has
  another length than that of the spectra raises. None of the estimators checks shapes
  itself; the error comes from numpy when two axes cannot be broadcast. A frequency axis of
  length 1 can: with one steering bin and two spectral bins \<open>srp_ssl\<close> and \<open>ml_ssl\<close>
  return a direction.
\<close>

theorem ssl_bin_mismatch_counterexample:
  "dim2 \<lparr>dim0 = 1, dim1 = 2, dim2 = 1, at3 = (\<lambda>a m f. 1::complex)\<rparr>
     \<noteq> dim2 \<lparr>dim0 = 2, dim1 = 1, dim2 = 2, at3 = (\<lambda>m t f. 1::complex)\<rparr>
   \<and> srp_ssl \<lparr>dim0 = 2, dim1 = 1, dim2 = 2, at3 = (\<lambda>m t f. 1)\<rparr>
             \<lparr>dim0 = 1, dim1 = 2, dim2 = 1, at3 = (\<lambda>a m f. 1)\<rparr>
             (Some ([0], [1])) None = Inr 0
   \<and> ml_ssl cmod \<lparr>dim0 = 2, dim1 = 1, dim2 = 2, at3 = (\<lambda>m t f. 1)\<rparr>
             \<lparr>dim0 = 1, dim1 = 2, dim2 = 1, at3 = (\<lambda>a m f. 1)\<rparr>
             0 (1 / 100000000) False None = Inr (Doa 0)"
  by (simp add: srp_ssl_def ml_ssl_def ml_loglike_def Let_def ones_def angle_def take_axis0_def
        take_axis1_def index_ok_def bsub3_def bdim_def srp_af_def masked_sum_def np_argmax_def
        argmax_first_def ssv_cor_def sv_normalize_def ml_delta_def ssh_cor_def tf_loglike_def)

text \<open>
  Claim C6, amended. When the two frequency axes differ and neither has length 1, each
  of the three estimators raises: none returns a direction.
\<close>

theorem ssl_bin_mismatch_rejected:
  assumes "dim2 sv \<noteq> dim2 stft" "dim2 sv \<noteq> 1" "dim2 stft \<noteq> 1"
  shows "isl (ml_ssl mag stft sv compression eps do_norm mask_opt)
       \<and> isl (srp_ssl stft sv srp_pair mask2_opt)
       \<and> isl (music_ssl eigh stft sv mask2_opt)"
  using ml_ssl_mismatch[OF assms] srp_ssl_mismatch[OF assms] music_ssl_mismatch[OF assms]
  by blast

theorem ssl_bin_mismatch_rejected_witness:
  "isl (ml_ssl cmod \<lparr>dim0 = 2, dim1 = 1, dim2 = 3, at3 = (\<lambda>m t f. 1)\<rparr>
              \<lparr>dim0 = 1, dim1 = 2, dim2 = 2, at3 = (\<lambda>a m f. 1)\<rparr> 0 (1 / 100000000) False None)
   \<and> isl (srp_ssl \<lparr>dim0 = 2, dim1 = 1, dim2 = 3, at3 = (\<lambda>m t f. 1)\<rparr>
              \<lparr>dim0 = 1, dim1 = 2, dim2 = 2, at3 = (\<lambda>a m f. 1)\<rparr> (Some ([0], [1])) None)
   \<and> isl (music_ssl (\<lambda>M C. (\<lambda>k. 0, \<lambda>i j. if i = j then 1 else 0))
              \<lparr>dim0 = 2, dim1 = 1, dim2 = 3, at3 = (\<lambda>m t f. 1)\<rparr>
              \<lparr>dim0 = 1, dim1 = 2, dim2 = 2, at3 = (\<lambda>a m f. 1)\<rparr> None)"
  using ssl_bin_mismatch_rejected[of
      "\<lparr>dim0 = 1, dim1 = 2, dim2 = 2, at3 = (\<lambda>a m f. 1)\<rparr>"
      "\<lparr>dim0 = 2, dim1 = 1, dim2 = 3, at3 = (\<lambda>m t f. 1)\<rparr>"
      cmod 0 "1 / 100000000" False None "Some ([0], [1])" None
      "\<lambda>M C. (\<lambda>k. 0, \<lambda>i j. if i = j then 1 else 0)"]
  by simp

subsection \<open>First maximum, first minimum\<close>






subsection \<open>The maximum-likelihood estimator\<close>

lemma stft_normalize_dims [simp]:
  "dim0 (stft_normalize mag eps X) = dim0 X" "dim1 (stft_normalize mag eps X) = dim1 X"
  "dim2 (stft_normalize mag eps X) = dim2 X"
  by (simp_all add: stft_normalize_def)

lemma sv_normalize_dims [simp]:
  "dim0 (sv_normalize sv) = dim0 sv" "dim1 (sv_normalize sv) = dim1 sv"
  "dim2 (sv_normalize sv) = dim2 sv"
  by (simp_all add: sv_normalize_def)























subsection \<open>The MUSIC estimator\<close>









subsection \<open>Phase-difference features\<close>

lemma get_channel_out_of_range: "int (dim0 S) \<le> i \<Longrightarrow> get_channel S i = Inl IndexError"
  by (simp add: get_channel_def index_ok_def)

lemma ipd_step_rejects:
  assumes pp: "parse_pair p = Inr [L, R]" and bad: "int (dim0 S) \<le> L \<or> int (dim0 S) \<le> R"
  shows "isl (ipd_loop lib a S (p # ps) acc)"
proof (cases "R > int (dim0 S)")
  case True
  then show ?thesis using pp by simp
next
  case False
  show ?thesis
  proof (cases "get_channel S L")
    case (Inl e)
    then show ?thesis using pp False by simp
  next
    case (Inr SL)
    then have "\<not> int (dim0 S) \<le> L" using get_channel_out_of_range[of S L] by auto
    with bad have "int (dim0 S) \<le> R" by simp
    then have "get_channel S R = Inl IndexError" by (rule get_channel_out_of_range)
    then show ?thesis using pp False Inr by simp
  qed
qed

lemma ipd_loop_rejects:
  assumes "p \<in> set ps" and pp: "parse_pair p = Inr [L, R]"
      and bad: "int (dim0 S) \<le> L \<or> int (dim0 S) \<le> R"
  shows "isl (ipd_loop lib a S ps acc)"
  using assms(1)
proof (induction ps arbitrary: acc)
  case Nil
  then show ?case by simp
next
  case (Cons q qs)
  show ?case
  proof (cases "q = p")
    case True
    then show ?thesis using ipd_step_rejects[OF pp bad] by simp
  next
    case False
    with Cons.prems have "p \<in> set qs" by simp
    from Cons.IH[OF this] show ?thesis
      by (auto simp: Let_def split: sum.splits)
  qed
qed

lemma parse_00: "parse_pair ''0,0'' = Inr [0, 0]"
  by (simp add: parse_pair_def py_int_def strip_def is_space_def is_digit_def Let_def)

lemma parse_02: "parse_pair ''0,2'' = Inr [0, 2]"
  by (simp add: parse_pair_def py_int_def strip_def is_space_def is_digit_def Let_def)

text \<open>
  Claim C8, as stated: the IPD path fails whenever the spectrogram has fewer than two
  channels. The guard of the source is on the number of axes (\<open>S.ndim < 3\<close>), not on the
  number of channels: a spectrogram with a channel axis of length 1 and the pair \<open>0,0\<close>
  passes and yields a feature matrix.
\<close>

theorem ipd_single_channel_counterexample:
  "dim0 \<lparr>dim0 = 1, dim1 = 1, dim2 = 1, at3 = (\<lambda>n t f. 1 :: complex)\<rparr> < 2
   \<and> \<not> isl (compute_spatial_feats
              \<lparr>srp_phat_linear = (\<lambda>a S. Inl ValueError), ipd = phase_difference,
               msc = (\<lambda>a S. Inl ValueError)\<rparr>
              \<lparr>feat_type = ''ipd'', ipd_pair = ''0,0'', ipd_cos = False, ipd_sin = False\<rparr>
              (Multi \<lparr>dim0 = 1, dim1 = 1, dim2 = 1, at3 = (\<lambda>n t f. 1)\<rparr>))"
  by (simp add: compute_spatial_feats_def parse_00 get_channel_def index_ok_def phase_difference_def
        np_hstack_def)

text \<open>
  Claim C8, amended. On the IPD path a spectrogram without a channel axis raises
  \<open>ValueError\<close>; and when some requested pair has a left or right index that is at least
  the channel count, the call raises and returns no features (the explicit check raises
  for a right index above the channel count, the indexing of numpy raises otherwise).
\<close>

theorem ipd_rejects_bad_input:
  assumes "feat_type a = ''ipd''"
  shows "compute_spatial_feats lib a (Mono S2) = Inl ValueError
       \<and> (\<forall>p L R. p \<in> set (split_on CHR '';'' (ipd_pair a)) \<and> parse_pair p = Inr [L, R]
                   \<and> (int (dim0 S3) \<le> L \<or> int (dim0 S3) \<le> R)
             \<longrightarrow> isl (compute_spatial_feats lib a (Multi S3)))"
proof (intro conjI allI impI)
  show "compute_spatial_feats lib a (Mono S2) = Inl ValueError"
    using assms by (simp add: compute_spatial_feats_def)
next
  fix p L R
  assume h: "p \<in> set (split_on CHR '';'' (ipd_pair a)) \<and> parse_pair p = Inr [L, R]
                   \<and> (int (dim0 S3) \<le> L \<or> int (dim0 S3) \<le> R)"
  then have "isl (ipd_loop lib a S3 (split_on CHR '';'' (ipd_pair a)) [])"
    using ipd_loop_rejects[of p _ L R S3] by blast
  then show "isl (compute_spatial_feats lib a (Multi S3))"
    using assms by (auto simp: compute_spatial_feats_def split: sum.splits)
qed

theorem ipd_rejects_bad_input_witness:
  "compute_spatial_feats
      \<lparr>srp_phat_linear = (\<lambda>a S. Inl ValueError), ipd = phase_difference, msc = (\<lambda>a S. Inl ValueError)\<rparr>
      \<lparr>feat_type = ''ipd'', ipd_pair = ''0,2'', ipd_cos = False, ipd_sin = False\<rparr>
      (Mono \<lparr>rows = 1, cols = 1, at2 = (\<lambda>t f. 1)\<rparr>) = Inl ValueError
   \<and> isl (compute_spatial_feats
      \<lparr>srp_phat_linear = (\<lambda>a S. Inl ValueError), ipd = phase_difference, msc = (\<lambda>a S. Inl ValueError)\<rparr>
      \<lparr>feat_type = ''ipd'', ipd_pair = ''0,2'', ipd_cos = False, ipd_sin = False\<rparr>
      (Multi \<lparr>dim0 = 2, dim1 = 1, dim2 = 1, at3 = (\<lambda>n t f. 1)\<rparr>))"
proof -
  let ?lib = "\<lparr>srp_phat_linear = (\<lambda>a S. Inl ValueError), ipd = phase_difference, msc = (\<lambda>a S. Inl ValueError)\<rparr>"
  let ?a = "\<lparr>feat_type = ''ipd'', ipd_pair = ''0,2'', ipd_cos = False, ipd_sin = False\<rparr>"
  let ?S3 = "\<lparr>dim0 = 2, dim1 = 1, dim2 = 1, at3 = (\<lambda>n t f. 1 :: complex)\<rparr>"
  have t: "feat_type ?a = ''ipd''" by simp
  have p: "''0,2'' \<in> set (split_on CHR '';'' (ipd_pair ?a)) \<and> parse_pair ''0,2'' = Inr [0, 2]
           \<and> (int (dim0 ?S3) \<le> 0 \<or> int (dim0 ?S3) \<le> 2)"
    by (simp add: parse_02)
  from ipd_rejects_bad_input[OF t, of ?lib "\<lparr>rows = 1, cols = 1, at2 = (\<lambda>t f. 1)\<rparr>" ?S3] p
  show ?thesis by blast
qed

end
